theory Spec2Isabelle
  imports Main "HOL-Library.AList"
begin

section \<open>JavaScript values used by the plugin\<close>

text \<open>
  The plugin (the second, current revision of \<^verbatim>\<open>src/index.js\<close>, class
  \<^verbatim>\<open>ServerlessResourcesEnv\<close>) only handles strings, optional strings, arrays of strings
  and plain objects whose keys and values are strings.

  \<^item> A value that may be \<^verbatim>\<open>undefined\<close>/\<^verbatim>\<open>null\<close> is an \<open>option\<close>.
  \<^item> A plain object is the list of its own properties in insertion order. Writing
    \<^verbatim>\<open>obj[k] = v\<close> replaces the value in place when \<open>k\<close> is already a property and
    appends a new property otherwise, which is \<^const>\<open>AList.update\<close>. (Insertion order is
    the iteration order of a JavaScript object for keys that are not array indices; every
    key the plugin creates itself starts with \<^verbatim>\<open>CF_\<close>.)
  \<^item> The lodash functions are modelled on such lists: \<^verbatim>\<open>_.keys\<close> is \<open>map fst\<close>,
    \<^verbatim>\<open>_.reduce\<close> is \<^const>\<open>foldl\<close>, \<^verbatim>\<open>_.map\<close> is \<^const>\<open>map\<close>.
\<close>

type_synonym js_object = "(string \<times> string) list"

text \<open>JavaScript truthiness of an optional string: \<^verbatim>\<open>undefined\<close> and \<^verbatim>\<open>''\<close> are falsy.\<close>

fun truthy :: "string option \<Rightarrow> bool" where
  "truthy None = False"
| "truthy (Some s) = (s \<noteq> [])"

text \<open>\<^verbatim>\<open>a || b\<close> for an optional string \<open>a\<close> and a string \<open>b\<close>.\<close>

fun js_or :: "string option \<Rightarrow> string \<Rightarrow> string" where
  "js_or None d = d"
| "js_or (Some s) d = (if s \<noteq> [] then s else d)"

text \<open>\<^verbatim>\<open>_.keys(obj)\<close>\<close>

definition keys :: "('k \<times> 'v) list \<Rightarrow> 'k list" where
  "keys obj = map fst obj"


text \<open>
  \<^verbatim>\<open>_.pick(object, paths)\<close>: walks \<open>paths\<close> in order and copies every property that
  \<open>object\<close> has into a fresh object. This is what lodash does with a path that is a plain
  property name. A path that contains \<^verbatim>\<open>.\<close> or \<^verbatim>\<open>[\<close> and is no key of the object is
  read by lodash as a deep path into the value (\<^verbatim>\<open>CF_a.length\<close> picks
  \<^verbatim>\<open>{CF_a: {length: 4}}\<close>), and the picked value is then no string: such paths are
  outside the domain of \<open>pick\<close>, and the statement below about the content of the picked
  object assumes \<open>plain_name\<close> of every requested path.
\<close>

definition pick :: "js_object \<Rightarrow> string list \<Rightarrow> js_object" where
  "pick object paths =
     foldl (\<lambda>result path.
              case map_of object path of
                None \<Rightarrow> result
              | Some v \<Rightarrow> AList.update path v result) [] paths"

text \<open>\<^verbatim>\<open>_.difference(array, values)\<close>: the elements of \<open>array\<close> not in \<open>values\<close>, in order.\<close>

definition difference :: "string list \<Rightarrow> string list \<Rightarrow> string list" where
  "difference array vals = filter (\<lambda>x. x \<notin> set vals) array"

text \<open>
  \<^verbatim>\<open>_.extend(target, s1, s2, ...)\<close>: assigns the properties of each source, in order, to
  the target; a source that is \<^verbatim>\<open>undefined\<close> is skipped.
\<close>

definition assignIn :: "js_object \<Rightarrow> js_object \<Rightarrow> js_object" where
  "assignIn target source = foldl (\<lambda>obj (k, v). AList.update k v obj) target source"

definition extend_obj :: "js_object \<Rightarrow> js_object option list \<Rightarrow> js_object" where
  "extend_obj target sources =
     foldl (\<lambda>obj src. case src of None \<Rightarrow> obj | Some s \<Rightarrow> assignIn obj s) target sources"

text \<open>\<^verbatim>\<open>_.join(array)\<close> with the default separator \<^verbatim>\<open>,\<close>.\<close>

fun join :: "string list \<Rightarrow> string" where
  "join [] = []"
| "join [x] = x"
| "join (x # y # ys) = x @ '','' @ join (y # ys)"

text \<open>Decimal rendering of a number inside a template literal.\<close>

definition digit :: "nat \<Rightarrow> char" where
  "digit d = char_of (48 + d)"

function string_of_nat :: "nat \<Rightarrow> string" where
  "string_of_nat n =
     (if n < 10 then [digit n] else string_of_nat (n div 10) @ [digit (n mod 10)])"
  by pat_completeness auto
termination
  by (relation "measure id") auto

declare string_of_nat.simps [simp del]

section \<open>Configuration handed over by the framework\<close>

text \<open>\<^verbatim>\<open>this.options\<close>: the command line options.\<close>

record cli_options =
  opt_stage :: "string option"
  opt_region :: "string option"

text \<open>\<^verbatim>\<open>this.serverless.config\<close>\<close>

record sls_config =
  servicePath :: string
  cfg_stage :: "string option"
  cfg_region :: "string option"

text \<open>\<^verbatim>\<open>this.serverless.service.provider\<close>\<close>

record sls_provider =
  prov_stage :: "string option"
  prov_region :: "string option"
  prov_environment :: "js_object option"

text \<open>\<^verbatim>\<open>functions[name].custom\<close>: the keys \<^verbatim>\<open>env-resources\<close> and \<^verbatim>\<open>resource-output-file\<close>.\<close>

record function_custom =
  env_resources :: "string list option"
  fn_resource_output_file :: "string option"

text \<open>\<^verbatim>\<open>this.serverless.service.functions[name]\<close>\<close>

record function_config =
  fn_custom :: "function_custom option"
  fn_environment :: "js_object option"

text \<open>\<^verbatim>\<open>this.serverless.service.custom\<close>: the key \<^verbatim>\<open>resource-output-dir\<close>.\<close>

record service_custom =
  resource_output_dir :: "string option"

text \<open>\<^verbatim>\<open>this.serverless.service\<close>\<close>

record sls_service =
  service :: string
  provider :: sls_provider
  svc_functions :: "(string \<times> function_config) list"
  custom :: "service_custom option"

text \<open>The plugin instance: \<^verbatim>\<open>this.options\<close> and \<^verbatim>\<open>this.serverless\<close>.\<close>

record plugin =
  options :: "cli_options option"
  config :: sls_config
  svc :: sls_service

section \<open>Stage, region and stack name\<close>

text \<open>\<^verbatim>\<open>this.options && this.options.f\<close>\<close>

definition option_field :: "plugin \<Rightarrow> (cli_options \<Rightarrow> string option) \<Rightarrow> string option" where
  "option_field p f = (case options p of None \<Rightarrow> None | Some opts \<Rightarrow> f opts)"

definition getStage :: "plugin \<Rightarrow> string" where
  "getStage p =
     (if truthy (option_field p opt_stage) then the (option_field p opt_stage)
      else if truthy (cfg_stage (config p)) then the (cfg_stage (config p))
      else if truthy (prov_stage (provider (svc p))) then the (prov_stage (provider (svc p)))
      else ''dev'')"

definition getRegion :: "plugin \<Rightarrow> string" where
  "getRegion p =
     (if truthy (option_field p opt_region) then the (option_field p opt_region)
      else if truthy (cfg_region (config p)) then the (cfg_region (config p))
      else if truthy (prov_region (provider (svc p))) then the (prov_region (provider (svc p)))
      else ''us-east-1'')"

definition getStackName :: "plugin \<Rightarrow> string" where
  "getStackName p = service (svc p) @ ''-'' @ getStage p"

section \<open>Location of the local env file\<close>

definition customDirectory :: "plugin \<Rightarrow> string option" where
  "customDirectory p = (case custom (svc p) of None \<Rightarrow> None | Some c \<Rightarrow> resource_output_dir c)"

definition getEnvDirectory :: "plugin \<Rightarrow> string" where
  "getEnvDirectory p =
     (let directory = js_or (customDirectory p) ''.serverless-resources-env''
      in servicePath (config p) @ ''/'' @ directory)"

text \<open>
  Errors that the model makes explicit: a JavaScript \<^verbatim>\<open>TypeError\<close> (reading a property
  of \<^verbatim>\<open>undefined\<close>), an \<^verbatim>\<open>Error\<close> thrown by the plugin with its message, and an error
  object handed over by a collaborator.
\<close>

datatype error = TypeError | Error string | Remote string | ENOENT string | EEXIST string

text \<open>
  \<^verbatim>\<open>getEnvFileName(functionName)\<close> reads \<^verbatim>\<open>functions[functionName].custom\<close>, which
  throws when the function is not declared.
\<close>

definition customName :: "function_config \<Rightarrow> string option" where
  "customName fc = (case fn_custom fc of None \<Rightarrow> None | Some c \<Rightarrow> fn_resource_output_file c)"

definition getEnvFileName :: "plugin \<Rightarrow> string \<Rightarrow> error + string" where
  "getEnvFileName p functionName =
     (let stage = getStage p; region = getRegion p
      in case map_of (svc_functions (svc p)) functionName of
           None \<Rightarrow> Inl TypeError
         | Some fc \<Rightarrow> Inr (js_or (customName fc) (''.'' @ region @ ''_'' @ stage @ ''_'' @ functionName)))"

section \<open>The collaborators: CloudFormation, Lambda, the file system, the log\<close>

record stack_resource =
  LogicalResourceId :: string
  PhysicalResourceId :: string

text \<open>
  What the \<^verbatim>\<open>listStackResources\<close> callback receives: an error, or a page with its
  \<^verbatim>\<open>StackResourceSummaries\<close> and its \<^verbatim>\<open>NextToken\<close> (absent on the last page).
\<close>

datatype cf_response = CfError string | CfPage "stack_resource list" "string option"

record cf_request =
  StackName :: string
  NextToken :: "string option"

record lambda_request =
  FunctionName :: string
  Variables :: js_object

text \<open>A path of the file system is a directory with its mode, or a file.\<close>

datatype fs_node = Directory nat | File string

text \<open>
  The state the plugin acts on. \<open>cf_pending\<close> holds the answers CloudFormation will give
  to the successive page requests; the other fields record what the plugin has asked for:
  the page requests, the Lambda configuration updates, the directories of the file system
  (changed by \<^verbatim>\<open>mkdirSync\<close>), the \<^verbatim>\<open>writeFile\<close> calls with their data, and the lines
  logged. \<open>fs_uncreatable\<close> lists the paths at which the file system refuses to create a
  directory, for instance because the parent directory is missing. Whether an issued
  update or write later succeeds is the collaborator's business and not part of the
  state; neither is the line logged when an update has succeeded.
\<close>

record world =
  cf_pending :: "cf_response list"
  cf_requests :: "cf_request list"
  lambda_requests :: "lambda_request list"
  fs_nodes :: "(string \<times> fs_node) list"
  fs_uncreatable :: "string list"
  fs_writes :: "(string \<times> string) list"
  cli_lines :: "string list"

text \<open>\<^verbatim>\<open>this.serverless.cli.log(msg)\<close>\<close>

definition cli_log :: "string \<Rightarrow> world \<Rightarrow> world" where
  "cli_log msg w = w\<lparr>cli_lines := cli_lines w @ [msg]\<rparr>"

text \<open>
  \<^verbatim>\<open>cloudFormation.listStackResources(params, callback)\<close>: the request is issued, and the
  callback gets the next pending answer, if there is one.
\<close>

definition listStackResources :: "cf_request \<Rightarrow> world \<Rightarrow> cf_response option \<times> world" where
  "listStackResources params w =
     (case cf_pending w of
        [] \<Rightarrow> (None, w\<lparr>cf_requests := cf_requests w @ [params]\<rparr>)
      | r # rs \<Rightarrow> (Some r, w\<lparr>cf_pending := rs, cf_requests := cf_requests w @ [params]\<rparr>))"

text \<open>\<^verbatim>\<open>lambda.updateFunctionConfiguration(params, callback)\<close> through \<^verbatim>\<open>updateFunctionEnv\<close>.\<close>

definition updateFunctionEnv :: "string \<Rightarrow> js_object \<Rightarrow> world \<Rightarrow> world" where
  "updateFunctionEnv functionName envVars w =
     w\<lparr>lambda_requests := lambda_requests w @
          [\<lparr>FunctionName = functionName, Variables = envVars\<rparr>]\<rparr>"

definition existsSync :: "world \<Rightarrow> string \<Rightarrow> bool" where
  "existsSync w path = (map_of (fs_nodes w) path \<noteq> None)"

text \<open>
  \<^verbatim>\<open>fs.mkdirSync(path, mode)\<close> throws when the path exists already and when the file system
  refuses to create it; otherwise the path becomes a directory with that mode.
\<close>

definition mkdirSync :: "string \<Rightarrow> nat \<Rightarrow> world \<Rightarrow> error + world" where
  "mkdirSync path mode w =
     (if map_of (fs_nodes w) path \<noteq> None then Inl (EEXIST path)
      else if path \<in> set (fs_uncreatable w) then Inl (ENOENT path)
      else Inr (w\<lparr>fs_nodes := AList.update path (Directory mode) (fs_nodes w)\<rparr>))"

fun isDirectory :: "fs_node \<Rightarrow> bool" where
  "isDirectory (Directory m) = True"
| "isDirectory (File c) = False"

definition statSync :: "world \<Rightarrow> string \<Rightarrow> error + fs_node" where
  "statSync w path = (case map_of (fs_nodes w) path of None \<Rightarrow> Inl (ENOENT path) | Some n \<Rightarrow> Inr n)"

definition writeFile :: "string \<Rightarrow> string \<Rightarrow> world \<Rightarrow> world" where
  "writeFile fullFileName data w = w\<lparr>fs_writes := fs_writes w @ [(fullFileName, data)]\<rparr>"

section \<open>Fetching the stack's resources\<close>

text \<open>
  A promise is resolved with a value, rejected with an error, or never settled (the
  callback is never called).
\<close>

datatype 'a outcome = Resolved 'a | Rejected error | Pending

function fetchCFResourcesPages ::
  "string \<Rightarrow> string option \<Rightarrow> stack_resource list \<Rightarrow> world \<Rightarrow> stack_resource list outcome \<times> world"
where
  "fetchCFResourcesPages stackName nextToken resourceSummaries w =
     (case listStackResources \<lparr>StackName = stackName, NextToken = nextToken\<rparr> w of
        (None, w1) \<Rightarrow> (Pending, w1)
      | (Some (CfError err), w1) \<Rightarrow> (Rejected (Remote err), w1)
      | (Some (CfPage summaries None), w1) \<Rightarrow>
          (let results = resourceSummaries @ summaries
           in (Resolved results,
               cli_log (''[serverless-resources-env] Returned '' @ string_of_nat (length results)
                        @ '' ResourceSummaries'') w1))
      | (Some (CfPage summaries (Some token)), w1) \<Rightarrow>
          (let w2 = cli_log ''[serverless-resources-env] Getting next Resources page'' w1;
               allSummaries = resourceSummaries @ summaries
           in fetchCFResourcesPages stackName (Some token) allSummaries w2))"
  by pat_completeness auto
termination
  by (relation "measure (\<lambda>(stackName, nextToken, resourceSummaries, w). length (cf_pending w))")
     (auto simp: listStackResources_def cli_log_def split: list.splits)

declare fetchCFResourcesPages.simps [simp del]

definition fetchCFResources :: "plugin \<Rightarrow> world \<Rightarrow> stack_resource list outcome \<times> world" where
  "fetchCFResources p w =
     (let stackName = getStackName p;
          w1 = cli_log (''[serverless-resources-env] Looking up resources for CF Named: '' @ stackName) w
      in fetchCFResourcesPages stackName None [] w1)"

section \<open>Writing the local env file\<close>

text \<open>
  The properties format of \<^verbatim>\<open>createCFFile\<close>:
  \<^verbatim>\<open>_.reduce(resources, (properties, item, key) => `${properties}${key}=${item}\n`, '')\<close>.
\<close>

definition properties_data :: "js_object \<Rightarrow> string" where
  "properties_data resources =
     foldl (\<lambda>properties (key, item). properties @ key @ ''='' @ item @ [CHR 0x0A]) [] resources"

text \<open>
  \<^verbatim>\<open>createCFFile(functionName, resources)\<close>. The result is \<open>Inl\<close> when the function throws,
  and \<open>Inr ()\<close> when it returns the promise of the write it has issued. The mode
  \<^verbatim>\<open>0o700\<close> (owner only) is \<open>0x1C0\<close>.
\<close>

definition createCFFile :: "plugin \<Rightarrow> string \<Rightarrow> js_object \<Rightarrow> world \<Rightarrow> (error + unit) \<times> world" where
  "createCFFile p functionName resources w =
     (let path = getEnvDirectory p
      in case getEnvFileName p functionName of
           Inl e \<Rightarrow> (Inl e, w)
         | Inr fileName \<Rightarrow>
             (case (if \<not> existsSync w path then mkdirSync path 0x1C0 w else Inr w) of
                Inl e \<Rightarrow> (Inl e, w)
              | Inr w1 \<Rightarrow>
                  (case statSync w1 path of
                     Inl e \<Rightarrow> (Inl e, w1)
                   | Inr st \<Rightarrow>
                       if \<not> isDirectory st
                       then (Inl (Error (''Expected '' @ path @ '' to be a directory'')), w1)
                       else
                         (let w2 = cli_log (''[serverless-resources-env] Writing ''
                                     @ string_of_nat (length (keys resources))
                                     @ '' CF resources to '' @ fileName) w1;
                              fullFileName = path @ ''/'' @ fileName;
                              data = properties_data resources
                          in (Inr (), writeFile fullFileName data w2)))))"

section \<open>The deploy cycle\<close>

text \<open>
  The resource map of \<^verbatim>\<open>afterDeploy\<close>:
  \<^verbatim>\<open>_.reduce(StackResources, (all, item) => { all[`CF_${item.LogicalResourceId}`] = item.PhysicalResourceId; return all; }, {})\<close>.
\<close>

definition resources :: "stack_resource list \<Rightarrow> js_object" where
  "resources stackResources =
     foldl (\<lambda>all item. AList.update (''CF_'' @ LogicalResourceId item) (PhysicalResourceId item) all)
       [] stackResources"

text \<open>The constants computed for one function in the callback of \<^verbatim>\<open>afterDeploy\<close>.\<close>

definition resourceList :: "function_config \<Rightarrow> string list" where
  "resourceList fc =
     map (\<lambda>resource. ''CF_'' @ resource)
       (case fn_custom fc of
          None \<Rightarrow> []
        | Some c \<Rightarrow> (case env_resources c of None \<Rightarrow> [] | Some rs \<Rightarrow> rs))"

definition thisFunctionsResources :: "js_object \<Rightarrow> function_config \<Rightarrow> js_object" where
  "thisFunctionsResources res fc = pick res (resourceList fc)"

definition notFoundList :: "js_object \<Rightarrow> function_config \<Rightarrow> string list" where
  "notFoundList res fc = difference (resourceList fc) (keys (thisFunctionsResources res fc))"

text \<open>\<^verbatim>\<open>this.serverless.service.provider.environment || {}\<close>\<close>

definition providerEnvironment :: "plugin \<Rightarrow> js_object" where
  "providerEnvironment p = (case prov_environment (provider (svc p)) of None \<Rightarrow> [] | Some e \<Rightarrow> e)"

definition thisFunctionEnv :: "plugin \<Rightarrow> js_object \<Rightarrow> function_config \<Rightarrow> js_object" where
  "thisFunctionEnv p res fc =
     extend_obj []
       [Some (thisFunctionsResources res fc), Some (providerEnvironment p), fn_environment fc]"

text \<open>
  The callback run for one function name: it logs, issues the Lambda update and calls
  \<^verbatim>\<open>createCFFile\<close>. (\<^verbatim>\<open>_.join\<close> of the plain object \<^verbatim>\<open>thisFunctionsResources\<close> is the
  empty string.)
\<close>

definition updatePromise :: "plugin \<Rightarrow> string \<Rightarrow> js_object \<Rightarrow> string \<Rightarrow> world \<Rightarrow> (error + unit) \<times> world" where
  "updatePromise p stackName res functionName w =
     (case map_of (svc_functions (svc p)) functionName of
        None \<Rightarrow> (Inl TypeError, w)
      | Some fc \<Rightarrow>
          (let awsFunctionName = stackName @ ''-'' @ functionName;
               w1 = (if length (notFoundList res fc) > 0
                     then cli_log (''[serverless-resources-env] WARNING: Could not find cloud formation resources for ''
                                   @ functionName @ ''.'' @ ''Could not find: '' @ join (notFoundList res fc)) w
                     else w);
               w2 = (if length (keys (thisFunctionsResources res fc)) = 0
                     then cli_log (''[serverless-resources-env] No env resources configured for ''
                                   @ functionName @ ''. Clearing env vars'') w1
                     else cli_log (''[serverless-resources-env] Setting env vars for ''
                                   @ functionName @ ''. '') w1);
               w3 = updateFunctionEnv awsFunctionName (thisFunctionEnv p res fc) w2
           in createCFFile p functionName (thisFunctionsResources res fc) w3))"

text \<open>\<^verbatim>\<open>_.map\<close> of the callback over the function names; an exception ends the walk.\<close>

fun updatePromises :: "plugin \<Rightarrow> string \<Rightarrow> js_object \<Rightarrow> string list \<Rightarrow> world \<Rightarrow> (error + unit) \<times> world" where
  "updatePromises p stackName res [] w = (Inr (), w)"
| "updatePromises p stackName res (functionName # rest) w =
     (case updatePromise p stackName res functionName w of
        (Inl e, w1) \<Rightarrow> (Inl e, w1)
      | (Inr u, w1) \<Rightarrow> updatePromises p stackName res rest w1)"

text \<open>
  What \<^verbatim>\<open>afterDeploy\<close> has done once its synchronous work is over: the fetch never
  settled, the cycle is rejected (by the fetch, or by an exception in the callback), or
  every function's update and write have been issued.
\<close>

datatype cycle = FetchPending | CycleRejected error | AllDispatched

definition afterDeploy :: "plugin \<Rightarrow> world \<Rightarrow> cycle \<times> world" where
  "afterDeploy p w =
     (let stackName = getStackName p
      in case fetchCFResources p w of
           (Pending, w1) \<Rightarrow> (FetchPending, w1)
         | (Rejected e, w1) \<Rightarrow> (CycleRejected e, w1)
         | (Resolved stackResources, w1) \<Rightarrow>
             (case updatePromises p stackName (resources stackResources)
                     (keys (svc_functions (svc p))) w1 of
                (Inl e, w2) \<Rightarrow> (CycleRejected e, w2)
              | (Inr u, w2) \<Rightarrow> (AllDispatched, w2)))"

section \<open>Notions of the specification\<close>

text \<open>
  The precedence rule of the stage and region resolver, in the specification's words: the
  first source that holds a value wins, and the fallback is used when none does. A source
  holding the empty string counts as holding no value.
\<close>

fun first_match :: "string option list \<Rightarrow> string \<Rightarrow> string" where
  "first_match [] fallback = fallback"
| "first_match (None # rest) fallback = first_match rest fallback"
| "first_match (Some v # rest) fallback = (if v = [] then first_match rest fallback else v)"

text \<open>The function-level static environment, empty when the function declares none.\<close>

definition staticEnvironment :: "function_config \<Rightarrow> js_object" where
  "staticEnvironment fc = (case fn_environment fc of None \<Rightarrow> [] | Some e \<Rightarrow> e)"


text \<open>
  The output directory can be used: the path is a directory, or it does not exist and the
  file system can create it.
\<close>

definition directory_usable :: "world \<Rightarrow> string \<Rightarrow> bool" where
  "directory_usable w path =
     (case map_of (fs_nodes w) path of
        None \<Rightarrow> path \<notin> set (fs_uncreatable w)
      | Some n \<Rightarrow> isDirectory n)"

text \<open>A response page that carries a continuation token, and the request for a page.\<close>

fun token_page :: "stack_resource list \<times> string \<Rightarrow> cf_response" where
  "token_page (summaries, token) = CfPage summaries (Some token)"

fun page_request :: "string \<Rightarrow> string option \<Rightarrow> cf_request" where
  "page_request stackName token = \<lparr>StackName = stackName, NextToken = token\<rparr>"

text \<open>The warning logged for a function whose requested keys are missing.\<close>

fun warning_line :: "string \<Rightarrow> string list \<Rightarrow> string" where
  "warning_line functionName missing =
     ''[serverless-resources-env] WARNING: Could not find cloud formation resources for ''
       @ functionName @ ''.Could not find: '' @ join missing"

text \<open>The name of the deployed function: service, stage and function name joined by dashes.\<close>

fun remote_name :: "plugin \<Rightarrow> string \<Rightarrow> string" where
  "remote_name p f = service (svc p) @ ''-'' @ getStage p @ ''-'' @ f"

section \<open>A sample deployment\<close>

text \<open>
  A service \<^verbatim>\<open>svc\<close> with one function \<^verbatim>\<open>hello\<close> that asks for the resources \<^verbatim>\<open>a\<close>
  and \<^verbatim>\<open>x\<close> and sets \<^verbatim>\<open>CF_b\<close> itself; the provider sets \<^verbatim>\<open>CF_a\<close> and \<^verbatim>\<open>CF_b\<close>.
  The stack has the resources \<^verbatim>\<open>a\<close> (listed on both pages) and \<^verbatim>\<open>b\<close>.
\<close>

definition hello_config :: function_config where
  "hello_config =
     \<lparr>fn_custom = Some \<lparr>env_resources = Some [''a'', ''x''], fn_resource_output_file = None\<rparr>,
      fn_environment = Some [(''CF_b'', ''override'')]\<rparr>"

definition demo_plugin :: plugin where
  "demo_plugin =
     \<lparr>options = None,
      config = \<lparr>servicePath = ''.'', cfg_stage = None, cfg_region = None\<rparr>,
      svc = \<lparr>service = ''svc'',
             provider = \<lparr>prov_stage = None, prov_region = None,
                         prov_environment = Some [(''CF_a'', ''default''), (''CF_b'', ''2'')]\<rparr>,
             svc_functions = [(''hello'', hello_config)],
             custom = None\<rparr>\<rparr>"

definition first_page :: "stack_resource list" where
  "first_page = [\<lparr>LogicalResourceId = ''a'', PhysicalResourceId = ''0''\<rparr>]"

definition last_page :: "stack_resource list" where
  "last_page = [\<lparr>LogicalResourceId = ''b'', PhysicalResourceId = ''2''\<rparr>,
                \<lparr>LogicalResourceId = ''a'', PhysicalResourceId = ''1''\<rparr>]"

definition demo_world :: world where
  "demo_world =
     \<lparr>cf_pending = [CfPage first_page (Some ''t1''), CfPage last_page None],
      cf_requests = [], lambda_requests = [], fs_nodes = [], fs_uncreatable = [],
      fs_writes = [], cli_lines = []\<rparr>"

text \<open>The same, with the second page request failing.\<close>

definition failing_world :: world where
  "failing_world = demo_world\<lparr>cf_pending := [CfPage first_page (Some ''t1''), CfError ''Throttling'']\<rparr>"

text \<open>The same, with a stray file where the output directory is expected.\<close>

definition shadowed_world :: world where
  "shadowed_world = demo_world\<lparr>fs_nodes := [(''./.serverless-resources-env'', File ''stray'')]\<rparr>"

text \<open>
  A variant of the service with both overrides set: the output directory
  \<^verbatim>\<open>build/out/env\<close> and, for \<^verbatim>\<open>hello\<close>, the file name \<^verbatim>\<open>.alt-file-name\<close>; and a file
  system in which \<^verbatim>\<open>./build/out\<close> is missing, so that the directory cannot be created.
\<close>

definition alt_config :: function_config where
  "alt_config =
     \<lparr>fn_custom = Some \<lparr>env_resources = Some [''a''], fn_resource_output_file = Some ''.alt-file-name''\<rparr>,
      fn_environment = None\<rparr>"

definition nested_plugin :: plugin where
  "nested_plugin =
     demo_plugin\<lparr>svc := (svc demo_plugin)
       \<lparr>svc_functions := [(''hello'', alt_config)],
        custom := Some \<lparr>resource_output_dir = Some ''build/out/env''\<rparr>\<rparr>\<rparr>"

definition blocked_world :: world where
  "blocked_world = demo_world\<lparr>fs_uncreatable := [''./build/out/env'']\<rparr>"

text \<open>
  A plugin whose three sources of the stage and of the region (run-time option,
  configuration, provider) hold the given values.
\<close>

definition staged_plugin :: "string option \<Rightarrow> string option \<Rightarrow> string option \<Rightarrow> plugin" where
  "staged_plugin opt cfg prov =
     \<lparr>options = Some \<lparr>opt_stage = opt, opt_region = opt\<rparr>,
      config = \<lparr>servicePath = ''.'', cfg_stage = cfg, cfg_region = cfg\<rparr>,
      svc = \<lparr>service = ''svc'',
             provider = \<lparr>prov_stage = prov, prov_region = prov, prov_environment = None\<rparr>,
             svc_functions = [],
             custom = None\<rparr>\<rparr>"

lemmas model_defs =
  getStage_def getRegion_def getStackName_def option_field_def customDirectory_def
  customName_def getEnvDirectory_def getEnvFileName_def keys_def pick_def difference_def
  assignIn_def extend_obj_def cli_log_def listStackResources_def updateFunctionEnv_def
  existsSync_def mkdirSync_def statSync_def writeFile_def fetchCFResources_def
  properties_data_def createCFFile_def resources_def resourceList_def
  thisFunctionsResources_def notFoundList_def providerEnvironment_def thisFunctionEnv_def
  updatePromise_def afterDeploy_def staticEnvironment_def directory_usable_def
  fetchCFResourcesPages.simps string_of_nat.simps digit_def Let_def

lemmas demo_defs =
  hello_config_def demo_plugin_def first_page_def last_page_def demo_world_def
  failing_world_def shadowed_world_def alt_config_def nested_plugin_def blocked_world_def

section \<open>Properties of the object operations\<close>

lemma foldl_update_keys_distinct:
  "distinct (map fst acc) \<Longrightarrow>
   distinct (map fst (foldl (\<lambda>all item. AList.update (kf item) (vf item) all) acc xs))"
  by (induction xs arbitrary: acc) (simp_all add: distinct_update)

lemma resources_distinct: "distinct (map fst (resources rs))"
  unfolding resources_def by (rule foldl_update_keys_distinct) simp

lemma foldl_update_lookup:
  "map_of (foldl (\<lambda>all item. AList.update (kf item) (vf item) all) acc xs) k =
     (if filter (\<lambda>x. kf x = k) xs = [] then map_of acc k
      else Some (vf (last (filter (\<lambda>x. kf x = k) xs))))"
proof (induction xs rule: rev_induct)
  case Nil
  then show ?case by simp
next
  case (snoc x xs)
  then show ?case by (simp add: update_conv')
qed

lemma distinct_count_one:
  "distinct (map fst al) \<Longrightarrow> map_of al k = Some v \<Longrightarrow> length (filter (\<lambda>kv. fst kv = k) al) = 1"
proof (induction al)
  case Nil
  then show ?case by simp
next
  case (Cons a al)
  show ?case
  proof (cases "fst a = k")
    case True
    with Cons.prems have "k \<notin> fst ` set al" by auto
    then have "filter (\<lambda>kv. fst kv = k) al = []"
      by (auto simp: filter_empty_conv)
    with True show ?thesis by simp
  next
    case False
    with Cons show ?thesis by simp
  qed
qed










section \<open>Properties of the page fetch\<close>

lemma fetch_pages_resolved:
  assumes "cf_pending w = map token_page init @ CfPage lastSummaries None # rest"
  shows "\<exists>w'. fetchCFResourcesPages sn tok acc w =
                 (Resolved (acc @ concat (map fst init) @ lastSummaries), w')
          \<and> cf_requests w' = cf_requests w @ map (page_request sn) (tok # map (Some \<circ> snd) init)
          \<and> cf_pending w' = rest"
  using assms
proof (induction init arbitrary: tok acc w)
  case Nil
  then show ?case
    by (subst fetchCFResourcesPages.simps)
       (simp add: listStackResources_def cli_log_def Let_def)
next
  case (Cons pg init)
  obtain summaries token where pg: "pg = (summaries, token)" by (cases pg)
  let ?w2 = "cli_log ''[serverless-resources-env] Getting next Resources page''
               (w\<lparr>cf_pending := map token_page init @ CfPage lastSummaries None # rest,
                   cf_requests := cf_requests w @ [page_request sn tok]\<rparr>)"
  have step: "fetchCFResourcesPages sn tok acc w =
                fetchCFResourcesPages sn (Some token) (acc @ summaries) ?w2"
    using Cons.prems
    by (subst fetchCFResourcesPages.simps)
       (simp add: listStackResources_def pg Let_def)
  have pend: "cf_pending ?w2 = map token_page init @ CfPage lastSummaries None # rest"
    by (simp add: cli_log_def)
  from Cons.IH [OF pend, of "Some token" "acc @ summaries"]
  obtain w' where w': "fetchCFResourcesPages sn (Some token) (acc @ summaries) ?w2 =
                 (Resolved ((acc @ summaries) @ concat (map fst init) @ lastSummaries), w')"
      "cf_requests w' = cf_requests ?w2 @ map (page_request sn) (Some token # map (Some \<circ> snd) init)"
      "cf_pending w' = rest"
    by blast
  show ?case
    using step w' by (simp add: pg cli_log_def)
qed

lemma fetch_pages_rejected:
  assumes "cf_pending w = map token_page init @ CfError err # rest"
  shows "\<exists>w'. fetchCFResourcesPages sn tok acc w = (Rejected (Remote err), w')
          \<and> lambda_requests w' = lambda_requests w
          \<and> fs_writes w' = fs_writes w
          \<and> fs_nodes w' = fs_nodes w"
  using assms
proof (induction init arbitrary: tok acc w)
  case Nil
  then show ?case
    by (subst fetchCFResourcesPages.simps)
       (simp add: listStackResources_def cli_log_def Let_def)
next
  case (Cons pg init)
  obtain summaries token where pg: "pg = (summaries, token)" by (cases pg)
  let ?w2 = "cli_log ''[serverless-resources-env] Getting next Resources page''
               (w\<lparr>cf_pending := map token_page init @ CfError err # rest,
                   cf_requests := cf_requests w @ [page_request sn tok]\<rparr>)"
  have step: "fetchCFResourcesPages sn tok acc w =
                fetchCFResourcesPages sn (Some token) (acc @ summaries) ?w2"
    using Cons.prems
    by (subst fetchCFResourcesPages.simps)
       (simp add: listStackResources_def pg Let_def)
  have pend: "cf_pending ?w2 = map token_page init @ CfError err # rest"
    by (simp add: cli_log_def)
  from Cons.IH [OF pend, of "Some token" "acc @ summaries"]
  show ?case
    using step by (simp add: cli_log_def)
qed

lemma fetch_pages_frame:
  "lambda_requests (snd (fetchCFResourcesPages sn tok acc w)) = lambda_requests w"
proof (induction sn tok acc w rule: fetchCFResourcesPages.induct)
  case (1 stackName nextToken resourceSummaries w)
  show ?case
  proof (cases "cf_pending w")
    case Nil
    then show ?thesis
      by (subst fetchCFResourcesPages.simps) (simp add: listStackResources_def)
  next
    case (Cons r rs)
    show ?thesis
    proof (cases r)
      case (CfError e)
      with Cons show ?thesis
        by (subst fetchCFResourcesPages.simps) (simp add: listStackResources_def)
    next
      case (CfPage summaries t)
      show ?thesis
      proof (cases t)
        case None
        with Cons CfPage show ?thesis
          by (subst fetchCFResourcesPages.simps) (simp add: listStackResources_def cli_log_def Let_def)
      next
        case (Some token)
        have ls: "listStackResources \<lparr>StackName = stackName, NextToken = nextToken\<rparr> w =
                (Some (CfPage summaries (Some token)),
                 w\<lparr>cf_pending := rs, cf_requests := cf_requests w @ [\<lparr>StackName = stackName, NextToken = nextToken\<rparr>]\<rparr>)"
          using Cons CfPage Some by (simp add: listStackResources_def)
        from "1.IH" [OF ls [symmetric] refl refl refl refl refl]
        show ?thesis
          using ls by (subst fetchCFResourcesPages.simps) (simp add: cli_log_def Let_def)
      qed
    qed
  qed
qed

lemma fetch_pages_fs:
  "fs_nodes (snd (fetchCFResourcesPages sn tok acc w)) = fs_nodes w"
proof (induction sn tok acc w rule: fetchCFResourcesPages.induct)
  case (1 stackName nextToken resourceSummaries w)
  show ?case
  proof (cases "cf_pending w")
    case Nil
    then show ?thesis
      by (subst fetchCFResourcesPages.simps) (simp add: listStackResources_def)
  next
    case (Cons r rs)
    show ?thesis
    proof (cases r)
      case (CfError e)
      with Cons show ?thesis
        by (subst fetchCFResourcesPages.simps) (simp add: listStackResources_def)
    next
      case (CfPage summaries t)
      show ?thesis
      proof (cases t)
        case None
        with Cons CfPage show ?thesis
          by (subst fetchCFResourcesPages.simps) (simp add: listStackResources_def cli_log_def Let_def)
      next
        case (Some token)
        have ls: "listStackResources \<lparr>StackName = stackName, NextToken = nextToken\<rparr> w =
                (Some (CfPage summaries (Some token)),
                 w\<lparr>cf_pending := rs, cf_requests := cf_requests w @ [\<lparr>StackName = stackName, NextToken = nextToken\<rparr>]\<rparr>)"
          using Cons CfPage Some by (simp add: listStackResources_def)
        from "1.IH" [OF ls [symmetric] refl refl refl refl refl]
        show ?thesis
          using ls by (subst fetchCFResourcesPages.simps) (simp add: cli_log_def Let_def)
      qed
    qed
  qed
qed

lemma fetch_pages_uncreatable:
  "fs_uncreatable (snd (fetchCFResourcesPages sn tok acc w)) = fs_uncreatable w"
proof (induction sn tok acc w rule: fetchCFResourcesPages.induct)
  case (1 stackName nextToken resourceSummaries w)
  show ?case
  proof (cases "cf_pending w")
    case Nil
    then show ?thesis
      by (subst fetchCFResourcesPages.simps) (simp add: listStackResources_def)
  next
    case (Cons r rs)
    show ?thesis
    proof (cases r)
      case (CfError e)
      with Cons show ?thesis
        by (subst fetchCFResourcesPages.simps) (simp add: listStackResources_def)
    next
      case (CfPage summaries t)
      show ?thesis
      proof (cases t)
        case None
        with Cons CfPage show ?thesis
          by (subst fetchCFResourcesPages.simps) (simp add: listStackResources_def cli_log_def Let_def)
      next
        case (Some token)
        have ls: "listStackResources \<lparr>StackName = stackName, NextToken = nextToken\<rparr> w =
                (Some (CfPage summaries (Some token)),
                 w\<lparr>cf_pending := rs, cf_requests := cf_requests w @ [\<lparr>StackName = stackName, NextToken = nextToken\<rparr>]\<rparr>)"
          using Cons CfPage Some by (simp add: listStackResources_def)
        from "1.IH" [OF ls [symmetric] refl refl refl refl refl]
        show ?thesis
          using ls by (subst fetchCFResourcesPages.simps) (simp add: cli_log_def Let_def)
      qed
    qed
  qed
qed

lemma fetchCFResources_frame:
  "lambda_requests (snd (fetchCFResources p w)) = lambda_requests w
   \<and> fs_nodes (snd (fetchCFResources p w)) = fs_nodes w
   \<and> fs_uncreatable (snd (fetchCFResources p w)) = fs_uncreatable w"
  by (simp add: fetchCFResources_def Let_def fetch_pages_frame fetch_pages_fs
      fetch_pages_uncreatable cli_log_def)

section \<open>Properties of the file writer and of the per-function callback\<close>



lemma createCFFile_collision:
  assumes "map_of (svc_functions (svc p)) f = Some fc"
    and "map_of (fs_nodes w) (getEnvDirectory p) = Some (File c)"
  shows "createCFFile p f obj w =
           (Inl (Error (''Expected '' @ getEnvDirectory p @ '' to be a directory'')), w)"
  using assms
  by (simp add: createCFFile_def getEnvFileName_def existsSync_def statSync_def Let_def)

lemma createCFFile_refused:
  assumes "map_of (svc_functions (svc p)) f = Some fc"
    and "map_of (fs_nodes w) (getEnvDirectory p) = None"
    and "getEnvDirectory p \<in> set (fs_uncreatable w)"
  shows "createCFFile p f obj w = (Inl (ENOENT (getEnvDirectory p)), w)"
  using assms
  by (simp add: createCFFile_def getEnvFileName_def existsSync_def mkdirSync_def Let_def)

lemma createCFFile_absent:
  assumes "map_of (svc_functions (svc p)) f = Some fc"
    and "map_of (fs_nodes w) (getEnvDirectory p) = None"
    and "getEnvDirectory p \<notin> set (fs_uncreatable w)"
  shows "map_of (fs_nodes (snd (createCFFile p f obj w))) (getEnvDirectory p) = Some (Directory 0x1C0)
         \<and> fst (createCFFile p f obj w) = Inr ()"
  using assms
  by (simp add: createCFFile_def getEnvFileName_def existsSync_def mkdirSync_def statSync_def
        update_conv' cli_log_def writeFile_def Let_def)

lemma createCFFile_lambda:
  "lambda_requests (snd (createCFFile p f obj w)) = lambda_requests w"
  by (simp add: createCFFile_def Let_def mkdirSync_def cli_log_def writeFile_def
      split: sum.splits)


lemma updatePromise_lambda:
  assumes "map_of (svc_functions (svc p)) f = Some fc"
  shows "lambda_requests (snd (updatePromise p sn res f w)) =
           lambda_requests w @ [\<lparr>FunctionName = sn @ ''-'' @ f, Variables = thisFunctionEnv p res fc\<rparr>]"
  using assms
  by (simp add: updatePromise_def Let_def createCFFile_lambda updateFunctionEnv_def cli_log_def)

lemma updatePromise_undeclared:
  assumes "map_of (svc_functions (svc p)) f = None"
  shows "updatePromise p sn res f w = (Inl TypeError, w)"
  using assms by (simp add: updatePromise_def)







lemma updatePromises_names:
  "\<exists>n\<le>length fs.
     map FunctionName (lambda_requests (snd (updatePromises p sn res fs w))) =
       map FunctionName (lambda_requests w) @ map (\<lambda>f. sn @ ''-'' @ f) (take n fs)
     \<and> (fst (updatePromises p sn res fs w) = Inr () \<longrightarrow> n = length fs)"
proof (induction fs arbitrary: w)
  case Nil
  then show ?case by simp
next
  case (Cons f fs)
  show ?case
  proof (cases "map_of (svc_functions (svc p)) f")
    case None
    then have "updatePromise p sn res f w = (Inl TypeError, w)"
      by (rule updatePromise_undeclared)
    then show ?thesis by (intro exI [of _ 0]) simp
  next
    case (Some fc)
    obtain r w1 where step: "updatePromise p sn res f w = (r, w1)"
      by (cases "updatePromise p sn res f w")
    have req: "map FunctionName (lambda_requests w1) =
                 map FunctionName (lambda_requests w) @ [sn @ ''-'' @ f]"
      using updatePromise_lambda [OF Some, of sn res w] step by simp
    show ?thesis
    proof (cases r)
      case (Inl e)
      with step req show ?thesis by (intro exI [of _ 1]) simp
    next
      case (Inr u)
      from Cons.IH [of w1] obtain n where n: "n \<le> length fs"
        "map FunctionName (lambda_requests (snd (updatePromises p sn res fs w1))) =
           map FunctionName (lambda_requests w1) @ map (\<lambda>f. sn @ ''-'' @ f) (take n fs)"
        "fst (updatePromises p sn res fs w1) = Inr () \<longrightarrow> n = length fs"
        by blast
      with step req Inr show ?thesis by (intro exI [of _ "Suc n"]) simp
    qed
  qed
qed

lemma updatePromise_collision:
  assumes "map_of (svc_functions (svc p)) f = Some fc"
    and "map_of (fs_nodes w) (getEnvDirectory p) = Some (File c)"
  shows "fst (updatePromise p sn res f w) =
           Inl (Error (''Expected '' @ getEnvDirectory p @ '' to be a directory''))
         \<and> fs_writes (snd (updatePromise p sn res f w)) = fs_writes w
         \<and> fs_nodes (snd (updatePromise p sn res f w)) = fs_nodes w"
proof -
  let ?w1 = "if 0 < length (notFoundList res fc)
             then cli_log (warning_line f (notFoundList res fc)) w else w"
  let ?w2 = "if length (keys (thisFunctionsResources res fc)) = 0
             then cli_log (''[serverless-resources-env] No env resources configured for ''
                           @ f @ ''. Clearing env vars'') ?w1
             else cli_log (''[serverless-resources-env] Setting env vars for '' @ f @ ''. '') ?w1"
  let ?w3 = "updateFunctionEnv (sn @ ''-'' @ f) (thisFunctionEnv p res fc) ?w2"
  have up: "updatePromise p sn res f w = createCFFile p f (thisFunctionsResources res fc) ?w3"
    using assms(1) by (simp add: updatePromise_def Let_def)
  have nodes: "map_of (fs_nodes ?w3) (getEnvDirectory p) = Some (File c)"
    using assms(2) by (simp add: updateFunctionEnv_def cli_log_def)
  have same: "fs_writes ?w3 = fs_writes w" "fs_nodes ?w3 = fs_nodes w"
    by (simp_all add: updateFunctionEnv_def cli_log_def)
  show ?thesis
    unfolding up createCFFile_collision [OF assms(1) nodes] using same by simp
qed

lemma updatePromise_refused:
  assumes "map_of (svc_functions (svc p)) f = Some fc"
    and "map_of (fs_nodes w) (getEnvDirectory p) = None"
    and "getEnvDirectory p \<in> set (fs_uncreatable w)"
  shows "fst (updatePromise p sn res f w) = Inl (ENOENT (getEnvDirectory p))
         \<and> fs_writes (snd (updatePromise p sn res f w)) = fs_writes w
         \<and> fs_nodes (snd (updatePromise p sn res f w)) = fs_nodes w"
proof -
  let ?w1 = "if 0 < length (notFoundList res fc)
             then cli_log (warning_line f (notFoundList res fc)) w else w"
  let ?w2 = "if length (keys (thisFunctionsResources res fc)) = 0
             then cli_log (''[serverless-resources-env] No env resources configured for ''
                           @ f @ ''. Clearing env vars'') ?w1
             else cli_log (''[serverless-resources-env] Setting env vars for '' @ f @ ''. '') ?w1"
  let ?w3 = "updateFunctionEnv (sn @ ''-'' @ f) (thisFunctionEnv p res fc) ?w2"
  have up: "updatePromise p sn res f w = createCFFile p f (thisFunctionsResources res fc) ?w3"
    using assms(1) by (simp add: updatePromise_def Let_def)
  have nodes: "map_of (fs_nodes ?w3) (getEnvDirectory p) = None"
    using assms(2) by (simp add: updateFunctionEnv_def cli_log_def)
  have refused: "getEnvDirectory p \<in> set (fs_uncreatable ?w3)"
    using assms(3) by (simp add: updateFunctionEnv_def cli_log_def)
  have same: "fs_writes ?w3 = fs_writes w" "fs_nodes ?w3 = fs_nodes w"
    by (simp_all add: updateFunctionEnv_def cli_log_def)
  show ?thesis
    unfolding up createCFFile_refused [OF assms(1) nodes refused] using same by simp
qed

section \<open>The claims\<close>

text \<open>
  C6. \<^verbatim>\<open>getStage\<close> and \<^verbatim>\<open>getRegion\<close> are total (they return a string for every
  plugin instance) and follow the precedence: the run-time option (the field of
  \<^verbatim>\<open>this.options\<close>, when there are options), then the configuration value, then the
  provider setting, then the hard-coded fallback (\<^verbatim>\<open>dev\<close>, \<^verbatim>\<open>us-east-1\<close>), where a
  source counts when it holds a non-empty value; \<^verbatim>\<open>getStackName\<close> is the service name, a
  dash and the stage resolved that way.
\<close>

theorem stage_region_precedence:
  "getStage p =
     first_match [Option.bind (options p) opt_stage, cfg_stage (config p),
                  prov_stage (provider (svc p))] ''dev''
   \<and> getRegion p =
     first_match [Option.bind (options p) opt_region, cfg_region (config p),
                  prov_region (provider (svc p))] ''us-east-1''
   \<and> getStackName p = service (svc p) @ ''-'' @
     first_match [Option.bind (options p) opt_stage, cfg_stage (config p),
                  prov_stage (provider (svc p))] ''dev''"
proof -
  have field: "option_field p f = Option.bind (options p) f" for f
    by (cases "options p") (simp_all add: option_field_def)
  have stage: "getStage p =
     first_match [Option.bind (options p) opt_stage, cfg_stage (config p),
                  prov_stage (provider (svc p))] ''dev''"
    by (cases "Option.bind (options p) opt_stage"; cases "cfg_stage (config p)";
        cases "prov_stage (provider (svc p))")
       (simp_all add: getStage_def field)
  have region: "getRegion p =
     first_match [Option.bind (options p) opt_region, cfg_region (config p),
                  prov_region (provider (svc p))] ''us-east-1''"
    by (cases "Option.bind (options p) opt_region"; cases "cfg_region (config p)";
        cases "prov_region (provider (svc p))")
       (simp_all add: getRegion_def field)
  show ?thesis
    using stage region by (simp add: getStackName_def)
qed

theorem stage_region_precedence_witness:
  "getStage (staged_plugin (Some ''prod'') (Some ''cfg'') (Some ''prov'')) = ''prod''
   \<and> getStage (staged_plugin None (Some ''cfg'') (Some ''prov'')) = ''cfg''
   \<and> getStage (staged_plugin (Some '''') None (Some ''prov'')) = ''prov''
   \<and> getStage (staged_plugin None None None) = ''dev''
   \<and> getRegion (staged_plugin (Some ''eu-west-1'') (Some ''cfg'') (Some ''prov'')) = ''eu-west-1''
   \<and> getRegion (staged_plugin None (Some ''cfg'') (Some ''prov'')) = ''cfg''
   \<and> getRegion (staged_plugin None None (Some ''prov'')) = ''prov''
   \<and> getRegion (staged_plugin None None None) = ''us-east-1''
   \<and> getStackName (staged_plugin (Some ''prod'') (Some ''cfg'') (Some ''prov'')) = ''svc-prod''
   \<and> getStackName (staged_plugin None None None) = ''svc-dev''
   \<and> getStage demo_plugin = ''dev''"
proof -
  have src: "options (staged_plugin a b c) = Some \<lparr>opt_stage = a, opt_region = a\<rparr>"
      "cfg_stage (config (staged_plugin a b c)) = b"
      "cfg_region (config (staged_plugin a b c)) = b"
      "prov_stage (provider (svc (staged_plugin a b c))) = c"
      "prov_region (provider (svc (staged_plugin a b c))) = c"
      "service (svc (staged_plugin a b c)) = ''svc''" for a b c
    by (simp_all add: staged_plugin_def)
  have demo: "options demo_plugin = None" "cfg_stage (config demo_plugin) = None"
      "prov_stage (provider (svc demo_plugin)) = None"
    by (simp_all add: demo_plugin_def)
  show ?thesis
    using stage_region_precedence [of "staged_plugin (Some ''prod'') (Some ''cfg'') (Some ''prov'')"]
      stage_region_precedence [of "staged_plugin None (Some ''cfg'') (Some ''prov'')"]
      stage_region_precedence [of "staged_plugin (Some '''') None (Some ''prov'')"]
      stage_region_precedence [of "staged_plugin None None None"]
      stage_region_precedence [of "staged_plugin (Some ''eu-west-1'') (Some ''cfg'') (Some ''prov'')"]
      stage_region_precedence [of "staged_plugin None None (Some ''prov'')"]
      stage_region_precedence [of demo_plugin]
    by (simp add: src demo)
qed

text \<open>
  C7. For a declared function, the file name is the function's \<^verbatim>\<open>resource-output-file\<close>
  (the field of its \<^verbatim>\<open>custom\<close> section) when it is set, and
  \<^verbatim>\<open>.<region>_<stage>_<function>\<close> otherwise; the directory is the service's
  \<^verbatim>\<open>resource-output-dir\<close> (the field of the service's \<^verbatim>\<open>custom\<close> section) when it is
  set, and \<^verbatim>\<open>.serverless-resources-env\<close> otherwise, below the service path. An override
  is set when it holds a non-empty value.
\<close>

theorem env_file_location:
  assumes "map_of (svc_functions (svc p)) f = Some fc"
  shows "getEnvFileName p f =
           Inr (case Option.bind (fn_custom fc) fn_resource_output_file of
                  None \<Rightarrow> ''.'' @ getRegion p @ ''_'' @ getStage p @ ''_'' @ f
                | Some name \<Rightarrow>
                    if name = [] then ''.'' @ getRegion p @ ''_'' @ getStage p @ ''_'' @ f
                    else name)
         \<and> getEnvDirectory p =
           servicePath (config p) @ ''/'' @
             (case Option.bind (custom (svc p)) resource_output_dir of
                None \<Rightarrow> ''.serverless-resources-env''
              | Some directory \<Rightarrow>
                  if directory = [] then ''.serverless-resources-env'' else directory)"
proof -
  have name: "customName fc = Option.bind (fn_custom fc) fn_resource_output_file"
    by (cases "fn_custom fc") (simp_all add: customName_def)
  have dir: "customDirectory p = Option.bind (custom (svc p)) resource_output_dir"
    by (cases "custom (svc p)") (simp_all add: customDirectory_def)
  have or_eq: "js_or x d = (case x of None \<Rightarrow> d | Some v \<Rightarrow> if v = [] then d else v)" for x d
    by (cases x) simp_all
  show ?thesis
    using assms
    by (simp add: getEnvFileName_def getEnvDirectory_def Let_def or_eq name dir
        split: option.splits)
qed

theorem env_file_location_witness:
  "map_of (svc_functions (svc demo_plugin)) ''hello'' = Some hello_config
   \<and> getRegion demo_plugin = ''us-east-1'' \<and> getStage demo_plugin = ''dev''
   \<and> getEnvFileName demo_plugin ''hello'' = Inr ''.us-east-1_dev_hello''
   \<and> getEnvDirectory demo_plugin = ''./.serverless-resources-env''
   \<and> map_of (svc_functions (svc nested_plugin)) ''hello'' = Some alt_config
   \<and> getEnvFileName nested_plugin ''hello'' = Inr ''.alt-file-name''
   \<and> getEnvDirectory nested_plugin = ''./build/out/env''"
proof -
  have declared: "map_of (svc_functions (svc demo_plugin)) ''hello'' = Some hello_config"
    by (simp add: demo_plugin_def)
  have declared': "map_of (svc_functions (svc nested_plugin)) ''hello'' = Some alt_config"
    by (simp add: nested_plugin_def)
  have stage: "getRegion demo_plugin = ''us-east-1''" "getStage demo_plugin = ''dev''"
    by (simp_all add: getStage_def getRegion_def option_field_def demo_plugin_def)
  have fields: "fn_custom hello_config =
        Some \<lparr>env_resources = Some [''a'', ''x''], fn_resource_output_file = None\<rparr>"
      "custom (svc demo_plugin) = None" "servicePath (config demo_plugin) = ''.''"
      "fn_custom alt_config =
        Some \<lparr>env_resources = Some [''a''], fn_resource_output_file = Some ''.alt-file-name''\<rparr>"
      "custom (svc nested_plugin) = Some \<lparr>resource_output_dir = Some ''build/out/env''\<rparr>"
      "servicePath (config nested_plugin) = ''.''"
    by (simp_all add: demo_defs)
  show ?thesis
    using declared declared' env_file_location [OF declared] env_file_location [OF declared']
    by (simp add: stage fields)
qed

text \<open>
  C9. When a logical id occurs in the fetched list (once or several times), the resource map
  has exactly one entry for its \<^verbatim>\<open>CF_\<close> key, and the value is the physical id of the last
  entry with that logical id.
\<close>

theorem duplicate_last_wins:
  assumes "l \<in> LogicalResourceId ` set rs"
  shows "map_of (resources rs) (''CF_'' @ l) =
           Some (PhysicalResourceId (last (filter (\<lambda>r. LogicalResourceId r = l) rs)))
         \<and> length (filter (\<lambda>kv. fst kv = ''CF_'' @ l) (resources rs)) = 1"
proof -
  from assms have ne: "filter (\<lambda>r. LogicalResourceId r = l) rs \<noteq> []"
    by (auto simp: filter_empty_conv)
  have look: "map_of (resources rs) (''CF_'' @ l) =
           Some (PhysicalResourceId (last (filter (\<lambda>r. LogicalResourceId r = l) rs)))"
    unfolding resources_def using ne by (simp add: foldl_update_lookup)
  from distinct_count_one [OF resources_distinct look] look show ?thesis by simp
qed

theorem duplicate_last_wins_witness:
  "''a'' \<in> LogicalResourceId ` set (first_page @ last_page)
   \<and> length (filter (\<lambda>r. LogicalResourceId r = ''a'') (first_page @ last_page)) = 2
   \<and> map_of (resources (first_page @ last_page)) ''CF_a'' = Some ''1''
   \<and> length (filter (\<lambda>kv. fst kv = ''CF_a'') (resources (first_page @ last_page))) = 1"
proof -
  have listed: "''a'' \<in> LogicalResourceId ` set (first_page @ last_page)"
    by (simp add: first_page_def last_page_def)
  show ?thesis
    using listed duplicate_last_wins [OF listed]
    by (simp add: first_page_def last_page_def)
qed



text \<open>
  C3. When CloudFormation answers with \<open>N\<close> pages, all but the last carrying a continuation
  token, the fetch issues exactly \<open>N\<close> page requests for the stack, the first without a
  token and each later one with the token of the previous page, and resolves with the
  pages' resource lists concatenated in page order.
\<close>

theorem pagination:
  assumes "cf_pending w = map token_page init @ CfPage lastSummaries None # rest"
  shows "fst (fetchCFResourcesPages stackName None [] w) =
           Resolved (concat (map fst init) @ lastSummaries)
         \<and> cf_requests (snd (fetchCFResourcesPages stackName None [] w)) =
           cf_requests w @ map (page_request stackName) (None # map (Some \<circ> snd) init)
         \<and> length (cf_requests (snd (fetchCFResourcesPages stackName None [] w))) =
           length (cf_requests w) + (length init + 1)
         \<and> cf_pending (snd (fetchCFResourcesPages stackName None [] w)) = rest
         \<and> fst (fetchCFResources p w) = Resolved (concat (map fst init) @ lastSummaries)
         \<and> cf_requests (snd (fetchCFResources p w)) =
           cf_requests w @ map (page_request (getStackName p)) (None # map (Some \<circ> snd) init)"
proof -
  from fetch_pages_resolved [OF assms, of stackName None "[]"]
  obtain w' where w': "fetchCFResourcesPages stackName None [] w =
        (Resolved ([] @ concat (map fst init) @ lastSummaries), w')"
      "cf_requests w' = cf_requests w @ map (page_request stackName) (None # map (Some \<circ> snd) init)"
      "cf_pending w' = rest"
    by blast
  let ?w1 = "cli_log (''[serverless-resources-env] Looking up resources for CF Named: '' @ getStackName p) w"
  have "cf_pending ?w1 = map token_page init @ CfPage lastSummaries None # rest"
    using assms by (simp add: cli_log_def)
  from fetch_pages_resolved [OF this, of "getStackName p" None "[]"]
  obtain w'' where w'': "fetchCFResourcesPages (getStackName p) None [] ?w1 =
        (Resolved ([] @ concat (map fst init) @ lastSummaries), w'')"
      "cf_requests w'' = cf_requests ?w1 @ map (page_request (getStackName p)) (None # map (Some \<circ> snd) init)"
    by blast
  have top: "fetchCFResources p w = fetchCFResourcesPages (getStackName p) None [] ?w1"
    by (simp add: fetchCFResources_def Let_def)
  show ?thesis
    using w' w'' by (simp add: top cli_log_def)
qed

theorem pagination_witness:
  "cf_pending demo_world = map token_page [(first_page, ''t1'')] @ CfPage last_page None # []
   \<and> fst (fetchCFResourcesPages ''svc-dev'' None [] demo_world) = Resolved (first_page @ last_page)
   \<and> cf_requests (snd (fetchCFResourcesPages ''svc-dev'' None [] demo_world)) =
        [\<lparr>StackName = ''svc-dev'', NextToken = None\<rparr>,
         \<lparr>StackName = ''svc-dev'', NextToken = Some ''t1''\<rparr>]
   \<and> length (cf_requests (snd (fetchCFResourcesPages ''svc-dev'' None [] demo_world))) = 2"
proof -
  have script: "cf_pending demo_world = map token_page [(first_page, ''t1'')] @ CfPage last_page None # []"
    by (simp add: demo_world_def)
  have none: "cf_requests demo_world = []"
    by (simp add: demo_world_def)
  show ?thesis
    using script pagination [OF script, of "''svc-dev''" demo_plugin]
    by (simp add: none)
qed

text \<open>
  C8. When a page request fails (after any number of pages with a token), the fetch is
  rejected with that error, and so is the deploy cycle: no function's environment is
  published, no directory is created and no file is written.
\<close>

theorem failed_page_rejects:
  assumes "cf_pending w = map token_page init @ CfError err # rest"
  shows "fst (fetchCFResourcesPages stackName None [] w) = Rejected (Remote err)
         \<and> fst (fetchCFResources p w) = Rejected (Remote err)
         \<and> fst (afterDeploy p w) = CycleRejected (Remote err)
         \<and> lambda_requests (snd (afterDeploy p w)) = lambda_requests w
         \<and> fs_writes (snd (afterDeploy p w)) = fs_writes w
         \<and> fs_nodes (snd (afterDeploy p w)) = fs_nodes w"
proof -
  from fetch_pages_rejected [OF assms, of stackName None "[]"]
  have pages: "fst (fetchCFResourcesPages stackName None [] w) = Rejected (Remote err)"
    by auto
  let ?w1 = "cli_log (''[serverless-resources-env] Looking up resources for CF Named: '' @ getStackName p) w"
  have "cf_pending ?w1 = map token_page init @ CfError err # rest"
    using assms by (simp add: cli_log_def)
  from fetch_pages_rejected [OF this, of "getStackName p" None "[]"]
  obtain w' where w': "fetchCFResourcesPages (getStackName p) None [] ?w1 = (Rejected (Remote err), w')"
      "lambda_requests w' = lambda_requests ?w1" "fs_writes w' = fs_writes ?w1"
      "fs_nodes w' = fs_nodes ?w1"
    by blast
  have top: "fetchCFResources p w = (Rejected (Remote err), w')"
    using w'(1) by (simp add: fetchCFResources_def Let_def)
  have cycle: "afterDeploy p w = (CycleRejected (Remote err), w')"
    by (simp add: afterDeploy_def top)
  show ?thesis
    using pages top cycle w'(2,3,4) by (simp add: cli_log_def)
qed

theorem failed_page_rejects_witness:
  "cf_pending failing_world = map token_page [(first_page, ''t1'')] @ CfError ''Throttling'' # []
   \<and> fst (afterDeploy demo_plugin failing_world) = CycleRejected (Remote ''Throttling'')
   \<and> lambda_requests (snd (afterDeploy demo_plugin failing_world)) = []
   \<and> fs_writes (snd (afterDeploy demo_plugin failing_world)) = []
   \<and> fs_nodes (snd (afterDeploy demo_plugin failing_world)) = []"
proof -
  have script: "cf_pending failing_world = map token_page [(first_page, ''t1'')] @ CfError ''Throttling'' # []"
    by (simp add: failing_world_def demo_world_def)
  have empty: "lambda_requests failing_world = []" "fs_writes failing_world = []"
      "fs_nodes failing_world = []"
    by (simp_all add: failing_world_def demo_world_def)
  show ?thesis
    using script failed_page_rejects [OF script, of "''svc-dev''" demo_plugin]
    by (simp add: empty)
qed

text \<open>
  C4, as amended. For a declared function: when the output directory does not exist,
  \<^verbatim>\<open>createCFFile\<close> asks the file system to create it with mode \<^verbatim>\<open>0o700\<close> (owner
  only); when the file system creates it, the path is a directory with that mode and the
  writer goes on to the write; when the file system refuses, the error is thrown, the state
  is as it was and no write is issued for that function. When the path is a file, the writer
  throws \<^verbatim>\<open>Expected ... to be a directory\<close> and leaves the state as it was, so no write is
  issued for that function, neither by \<^verbatim>\<open>createCFFile\<close> nor by the callback that called
  it.
\<close>

theorem directory_safety:
  assumes "map_of (svc_functions (svc p)) f = Some fc"
  shows "(\<not> existsSync w (getEnvDirectory p) \<and> getEnvDirectory p \<notin> set (fs_uncreatable w) \<longrightarrow>
            fst (createCFFile p f obj w) = Inr ()
            \<and> map_of (fs_nodes (snd (createCFFile p f obj w))) (getEnvDirectory p) =
                Some (Directory 0x1C0))
         \<and> (\<not> existsSync w (getEnvDirectory p) \<and> getEnvDirectory p \<in> set (fs_uncreatable w) \<longrightarrow>
              createCFFile p f obj w = (Inl (ENOENT (getEnvDirectory p)), w)
              \<and> fst (updatePromise p stackName res f w) = Inl (ENOENT (getEnvDirectory p))
              \<and> fs_writes (snd (updatePromise p stackName res f w)) = fs_writes w)
         \<and> (\<forall>c. map_of (fs_nodes w) (getEnvDirectory p) = Some (File c) \<longrightarrow>
              createCFFile p f obj w =
                (Inl (Error (''Expected '' @ getEnvDirectory p @ '' to be a directory'')), w)
              \<and> fst (updatePromise p stackName res f w) =
                  Inl (Error (''Expected '' @ getEnvDirectory p @ '' to be a directory''))
              \<and> fs_writes (snd (updatePromise p stackName res f w)) = fs_writes w)"
proof (intro conjI impI allI)
  assume "\<not> existsSync w (getEnvDirectory p) \<and> getEnvDirectory p \<notin> set (fs_uncreatable w)"
  then have absent: "map_of (fs_nodes w) (getEnvDirectory p) = None"
    and creatable: "getEnvDirectory p \<notin> set (fs_uncreatable w)"
    by (simp_all add: existsSync_def)
  from createCFFile_absent [OF assms absent creatable, of obj]
  show "fst (createCFFile p f obj w) = Inr ()"
    and "map_of (fs_nodes (snd (createCFFile p f obj w))) (getEnvDirectory p) = Some (Directory 0x1C0)"
    by simp_all
next
  assume "\<not> existsSync w (getEnvDirectory p) \<and> getEnvDirectory p \<in> set (fs_uncreatable w)"
  then have absent: "map_of (fs_nodes w) (getEnvDirectory p) = None"
    and refused: "getEnvDirectory p \<in> set (fs_uncreatable w)"
    by (simp_all add: existsSync_def)
  show "createCFFile p f obj w = (Inl (ENOENT (getEnvDirectory p)), w)"
    by (rule createCFFile_refused [OF assms absent refused])
  from updatePromise_refused [OF assms absent refused, of stackName res]
  show "fst (updatePromise p stackName res f w) = Inl (ENOENT (getEnvDirectory p))"
    and "fs_writes (snd (updatePromise p stackName res f w)) = fs_writes w"
    by simp_all
next
  fix c
  assume stray: "map_of (fs_nodes w) (getEnvDirectory p) = Some (File c)"
  show "createCFFile p f obj w =
          (Inl (Error (''Expected '' @ getEnvDirectory p @ '' to be a directory'')), w)"
    by (rule createCFFile_collision [OF assms stray])
  from updatePromise_collision [OF assms stray, of stackName res]
  show "fst (updatePromise p stackName res f w) =
          Inl (Error (''Expected '' @ getEnvDirectory p @ '' to be a directory''))"
    and "fs_writes (snd (updatePromise p stackName res f w)) = fs_writes w"
    by simp_all
qed

theorem directory_safety_witness:
  "map_of (svc_functions (svc demo_plugin)) ''hello'' = Some hello_config
   \<and> \<not> existsSync demo_world (getEnvDirectory demo_plugin)
   \<and> getEnvDirectory demo_plugin \<notin> set (fs_uncreatable demo_world)
   \<and> fst (createCFFile demo_plugin ''hello'' [(''CF_a'', ''1'')] demo_world) = Inr ()
   \<and> map_of (fs_nodes (snd (createCFFile demo_plugin ''hello'' [(''CF_a'', ''1'')] demo_world)))
        ''./.serverless-resources-env'' = Some (Directory 448)
   \<and> map_of (svc_functions (svc nested_plugin)) ''hello'' = Some alt_config
   \<and> \<not> existsSync blocked_world (getEnvDirectory nested_plugin)
   \<and> getEnvDirectory nested_plugin \<in> set (fs_uncreatable blocked_world)
   \<and> createCFFile nested_plugin ''hello'' [(''CF_a'', ''1'')] blocked_world =
        (Inl (ENOENT ''./build/out/env''), blocked_world)
   \<and> fs_writes (snd (updatePromise nested_plugin ''svc-dev'' [(''CF_a'', ''1'')] ''hello'' blocked_world)) = []
   \<and> map_of (fs_nodes shadowed_world) (getEnvDirectory demo_plugin) = Some (File ''stray'')
   \<and> createCFFile demo_plugin ''hello'' [(''CF_a'', ''1'')] shadowed_world =
        (Inl (Error ''Expected ./.serverless-resources-env to be a directory''), shadowed_world)
   \<and> fs_writes (snd (updatePromise demo_plugin ''svc-dev'' [(''CF_a'', ''1'')] ''hello'' shadowed_world)) = []"
proof -
  have declared: "map_of (svc_functions (svc demo_plugin)) ''hello'' = Some hello_config"
    by (simp add: demo_plugin_def)
  have declared': "map_of (svc_functions (svc nested_plugin)) ''hello'' = Some alt_config"
    by (simp add: nested_plugin_def)
  have dir: "getEnvDirectory demo_plugin = ''./.serverless-resources-env''"
    by (simp add: getEnvDirectory_def customDirectory_def demo_plugin_def)
  have dir': "getEnvDirectory nested_plugin = ''./build/out/env''"
    by (simp add: getEnvDirectory_def customDirectory_def nested_plugin_def demo_plugin_def)
  have free: "\<not> existsSync demo_world (getEnvDirectory demo_plugin)"
      "getEnvDirectory demo_plugin \<notin> set (fs_uncreatable demo_world)"
    by (simp_all add: existsSync_def demo_world_def)
  have blocked: "\<not> existsSync blocked_world (getEnvDirectory nested_plugin)"
      "getEnvDirectory nested_plugin \<in> set (fs_uncreatable blocked_world)"
    by (simp_all add: dir' existsSync_def blocked_world_def demo_world_def)
  have stray: "map_of (fs_nodes shadowed_world) (getEnvDirectory demo_plugin) = Some (File ''stray'')"
    by (simp add: dir shadowed_world_def demo_world_def)
  have none: "fs_writes shadowed_world = []" "fs_writes blocked_world = []"
    by (simp_all add: shadowed_world_def blocked_world_def demo_world_def)
  show ?thesis
    using declared declared' free blocked stray
      directory_safety [OF declared, of demo_world "[(''CF_a'', ''1'')]" "''svc-dev''" "[(''CF_a'', ''1'')]"]
      directory_safety [OF declared', of blocked_world "[(''CF_a'', ''1'')]" "''svc-dev''" "[(''CF_a'', ''1'')]"]
      directory_safety [OF declared, of shadowed_world "[(''CF_a'', ''1'')]" "''svc-dev''" "[(''CF_a'', ''1'')]"]
    by (simp add: dir dir' none)
qed

text \<open>
  C4, as stated, fails: with the output directory \<^verbatim>\<open>build/out/env\<close> and no
  \<^verbatim>\<open>./build/out\<close>, the path does not exist, \<^verbatim>\<open>mkdirSync\<close> throws, and after the writer
  has run the path still does not exist: a missing directory is not always created.
\<close>

theorem directory_not_created:
  "\<not> existsSync blocked_world (getEnvDirectory nested_plugin)
   \<and> createCFFile nested_plugin ''hello'' [(''CF_a'', ''1'')] blocked_world =
        (Inl (ENOENT ''./build/out/env''), blocked_world)
   \<and> \<not> existsSync (snd (createCFFile nested_plugin ''hello'' [(''CF_a'', ''1'')] blocked_world))
          (getEnvDirectory nested_plugin)"
  by (simp add: model_defs demo_defs)



text \<open>
  C10. For a declared function \<open>f\<close>, the callback of the deploy cycle issues the Lambda
  update under the name stack name, dash, \<open>f\<close>, that is service, dash, stage, dash, \<open>f\<close>.
  Over the whole cycle the updates issued carry these names for the declared functions in
  their order, for all of them when the cycle dispatches everything.
\<close>

theorem remote_function_name:
  assumes "map_of (svc_functions (svc p)) f = Some fc"
  shows "lambda_requests (snd (updatePromise p (getStackName p) res f w)) =
           lambda_requests w @ [\<lparr>FunctionName = remote_name p f, Variables = thisFunctionEnv p res fc\<rparr>]
         \<and> (\<exists>n\<le>length (keys (svc_functions (svc p))).
               map FunctionName (lambda_requests (snd (afterDeploy p w))) =
                 map FunctionName (lambda_requests w)
                   @ map (remote_name p) (take n (keys (svc_functions (svc p))))
               \<and> (fst (afterDeploy p w) = AllDispatched \<longrightarrow>
                    n = length (keys (svc_functions (svc p)))))"
proof
  show "lambda_requests (snd (updatePromise p (getStackName p) res f w)) =
           lambda_requests w @ [\<lparr>FunctionName = remote_name p f, Variables = thisFunctionEnv p res fc\<rparr>]"
    using updatePromise_lambda [OF assms, of "getStackName p" res w]
    by (simp add: getStackName_def)
next
  let ?fs = "keys (svc_functions (svc p))"
  have name: "(\<lambda>g. getStackName p @ ''-'' @ g) = remote_name p"
    by (rule ext) (simp add: getStackName_def)
  obtain out w1 where fetched: "fetchCFResources p w = (out, w1)"
    by (cases "fetchCFResources p w")
  have same: "lambda_requests w1 = lambda_requests w"
    using fetchCFResources_frame [of p w] fetched by simp
  show "\<exists>n\<le>length ?fs.
          map FunctionName (lambda_requests (snd (afterDeploy p w))) =
            map FunctionName (lambda_requests w) @ map (remote_name p) (take n ?fs)
          \<and> (fst (afterDeploy p w) = AllDispatched \<longrightarrow> n = length ?fs)"
  proof (cases out)
    case (Resolved stackResources)
    let ?run = "updatePromises p (getStackName p) (resources stackResources) ?fs w1"
    from updatePromises_names [of ?fs p "getStackName p" "resources stackResources" w1]
    obtain n where n: "n \<le> length ?fs"
        "map FunctionName (lambda_requests (snd ?run)) =
           map FunctionName (lambda_requests w1) @ map (\<lambda>g. getStackName p @ ''-'' @ g) (take n ?fs)"
        "fst ?run = Inr () \<longrightarrow> n = length ?fs"
      by blast
    have cycle: "afterDeploy p w =
        (case ?run of (Inl e, w2) \<Rightarrow> (CycleRejected e, w2) | (Inr u, w2) \<Rightarrow> (AllDispatched, w2))"
      by (simp add: afterDeploy_def fetched Resolved Let_def)
    have names: "map FunctionName (lambda_requests (snd ?run)) =
           map FunctionName (lambda_requests w1) @ map (remote_name p) (take n ?fs)"
      using n(2) unfolding name .
    obtain r w2 where run: "?run = (r, w2)"
      by (cases ?run)
    show ?thesis
    proof (cases r)
      case (Inl e)
      with n(1,3) names run show ?thesis
        by (intro exI [of _ n]) (simp add: cycle same)
    next
      case (Inr u)
      with n(1,3) names run show ?thesis
        by (intro exI [of _ n]) (simp add: cycle same)
    qed
  next
    case (Rejected e)
    then show ?thesis
      by (intro exI [of _ 0]) (simp add: afterDeploy_def fetched same)
  next
    case Pending
    then show ?thesis
      by (intro exI [of _ 0]) (simp add: afterDeploy_def fetched same)
  qed
qed

theorem remote_function_name_witness:
  "map_of (svc_functions (svc demo_plugin)) ''hello'' = Some hello_config
   \<and> remote_name demo_plugin ''hello'' = ''svc-dev-hello''
   \<and> fst (afterDeploy demo_plugin demo_world) = AllDispatched
   \<and> map FunctionName (lambda_requests (snd (afterDeploy demo_plugin demo_world))) = [''svc-dev-hello'']"
proof -
  have declared: "map_of (svc_functions (svc demo_plugin)) ''hello'' = Some hello_config"
    by (simp add: demo_plugin_def)
  have name: "remote_name demo_plugin ''hello'' = ''svc-dev-hello''"
    by (simp add: getStage_def option_field_def demo_plugin_def)
  have run: "fst (afterDeploy demo_plugin demo_world) = AllDispatched"
    by (simp add: model_defs demo_defs)
  have start: "lambda_requests demo_world = []"
      "keys (svc_functions (svc demo_plugin)) = [''hello'']"
    by (simp_all add: demo_world_def demo_plugin_def keys_def)
  from remote_function_name [OF declared, of "[]" demo_world]
  obtain n where "map FunctionName (lambda_requests (snd (afterDeploy demo_plugin demo_world))) =
        map FunctionName (lambda_requests demo_world)
          @ map (remote_name demo_plugin) (take n (keys (svc_functions (svc demo_plugin))))"
      "fst (afterDeploy demo_plugin demo_world) = AllDispatched \<longrightarrow>
         n = length (keys (svc_functions (svc demo_plugin)))"
    by blast
  with run start name have
    "map FunctionName (lambda_requests (snd (afterDeploy demo_plugin demo_world))) = [''svc-dev-hello'']"
    by simp
  with declared name run show ?thesis by simp
qed




end
